theory Spec2Isabelle
  imports Complex_Main "HOL-Library.Sublist" "HOL-Library.Multiset"
begin

section \<open>Data model\<close>

text \<open>
  Exceptions are values. \<open>Raised k msg\<close> is a Python exception of class \<open>k\<close> whose
  \<open>str(e)\<close> is \<open>msg\<close>.
\<close>

datatype exn_class =
  ValueError | NotFittedError | AttributeError | IndexError | LLMError | OSError

datatype exn = Raised exn_class string

fun str_exn :: "exn \<Rightarrow> string" where
  "str_exn (Raised k msg) = msg"

text \<open>
  A row of the record store: the \<open>id\<close>, \<open>title\<close> and \<open>content\<close> columns of
  \<open>documents.models.Document\<close>, the only ones the retrieval and answering code reads.
  The store itself is the list of rows in the order \<open>Document.objects.all()\<close> yields them.
\<close>

record document =
  doc_id :: int
  doc_title :: string
  doc_content :: string

text \<open>The dataclass \<open>RetrievalResult\<close> of \<open>services/retriever.py\<close>.\<close>

record RetrievalResult =
  document_id :: int
  title :: string
  score :: real
  content_preview :: string

text \<open>
  scikit-learn and numpy are not part of the repository; the retriever is modelled over
  their contracts, passed as a parameter.
  \<^item> \<open>fit_transform\<close>: \<open>TfidfVectorizer(...).fit_transform(contents)\<close>. It either raises
    (scikit-learn raises \<open>ValueError\<close>, "empty vocabulary", when no document holds a term
    that is not a stop word) or yields the fitted vectorizer and one vector per document.
  \<^item> \<open>transform\<close>: \<open>vectorizer.transform([question])\<close> on a fitted vectorizer.
  \<^item> \<open>cosine\<close>: one entry of \<open>cosine_similarity(question_vector, matrix)\<close>.
  \<^item> \<open>argsort\<close>: \<open>np.argsort\<close>, the indices that sort the scores ascending.
\<close>

record ('v, 'dv) sklearn =
  fit_transform :: "string list \<Rightarrow> exn + ('v \<times> 'dv list)"
  transform :: "'v \<Rightarrow> string \<Rightarrow> 'dv"
  cosine :: "'dv \<Rightarrow> 'dv \<Rightarrow> real"
  argsort :: "real list \<Rightarrow> nat list"

text \<open>
  A \<open>TfidfVectorizer\<close> object is unfitted when constructed; \<open>fit_transform\<close> fits it in place.
\<close>

datatype 'v vectorizer_obj = Unfitted | Fitted 'v

text \<open>
  The fields of \<open>DocumentRetriever\<close>. \<open>None\<close> is Python's \<open>None\<close>; the property
  \<open>is_indexed\<close> returns the field \<open>_is_indexed\<close>.
\<close>

record ('v, 'dv) retriever =
  vectorizer :: "'v vectorizer_obj option"
  tfidf_matrix :: "'dv list option"
  document_ids :: "int list"
  document_titles :: "string list"
  document_previews :: "string list"
  is_indexed :: bool

definition init_retriever :: "('v, 'dv) retriever" where
  "init_retriever =
     \<lparr>vectorizer = None, tfidf_matrix = None, document_ids = [], document_titles = [],
      document_previews = [], is_indexed = False\<rparr>"

section \<open>DocumentRetriever\<close>

text \<open>\<open>content[:200] + '...' if len(content) > 200 else content\<close>\<close>

definition preview :: "string \<Rightarrow> string" where
  "preview content = (if length content > 200 then take 200 content @ ''...'' else content)"

text \<open>
  \<open>index_documents\<close>, with the store's current rows as an argument. The three arrays are
  filled by the loop over the rows, then the new vectorizer object is stored, then it is
  fitted; when fitting raises, the exception leaves the method with the fields as they are
  at that point.
\<close>

definition index_documents ::
  "('v, 'dv) sklearn \<Rightarrow> document list \<Rightarrow> ('v, 'dv) retriever \<Rightarrow> (exn + int) \<times> ('v, 'dv) retriever"
where
  "index_documents lib documents s =
     (if documents = [] then
        (Inr 0, s\<lparr>is_indexed := False, vectorizer := None, tfidf_matrix := None,
                  document_ids := [], document_titles := [], document_previews := []\<rparr>)
      else
        let s1 = s\<lparr>document_ids := map doc_id documents,
                    document_titles := map doc_title documents,
                    document_previews := map (\<lambda>d. preview (doc_content d)) documents\<rparr>;
            contents = map doc_content documents;
            s2 = s1\<lparr>vectorizer := Some Unfitted\<rparr>
        in case fit_transform lib contents of
             Inl e \<Rightarrow> (Inl e, s2)
           | Inr (v, mx) \<Rightarrow>
               let s3 = s2\<lparr>vectorizer := Some (Fitted v), tfidf_matrix := Some mx,
                           is_indexed := True\<rparr>
               in (Inr (int (length (document_ids s3))), s3))"

text \<open>The property \<open>document_count\<close>.\<close>

definition document_count :: "('v, 'dv) retriever \<Rightarrow> int" where
  "document_count s = int (length (document_ids s))"

definition clear_index :: "('v, 'dv) retriever \<Rightarrow> ('v, 'dv) retriever" where
  "clear_index s =
     s\<lparr>vectorizer := None, tfidf_matrix := None, document_ids := [], document_titles := [],
       document_previews := [], is_indexed := False\<rparr>"

text \<open>
  The slice \<open>xs[:k]\<close> for a Python integer \<open>k\<close>: a negative \<open>k\<close> counts from the end.
\<close>

definition py_take :: "int \<Rightarrow> 'a list \<Rightarrow> 'a list" where
  "py_take k xs = (if 0 \<le> k then take (nat k) xs else take (nat (int (length xs) + k)) xs)"

text \<open>
  The loop over \<open>top_indices\<close>: an index outside an array raises \<open>IndexError\<close> at the
  first place the loop reads it.
\<close>

fun build_results ::
  "real list \<Rightarrow> int list \<Rightarrow> string list \<Rightarrow> string list \<Rightarrow> real \<Rightarrow> nat list
     \<Rightarrow> exn + RetrievalResult list"
where
  "build_results sims ids titles previews min_score [] = Inr []"
| "build_results sims ids titles previews min_score (idx # rest) =
     (if length sims \<le> idx then Inl (Raised IndexError ''index out of bounds'')
      else if sims ! idx \<ge> min_score then
        (if idx < length ids \<and> idx < length titles \<and> idx < length previews then
           (case build_results sims ids titles previews min_score rest of
              Inl e \<Rightarrow> Inl e
            | Inr rs \<Rightarrow>
                Inr (\<lparr>document_id = ids ! idx, title = titles ! idx, score = sims ! idx,
                      content_preview = previews ! idx\<rparr> # rs))
         else Inl (Raised IndexError ''list index out of range''))
      else build_results sims ids titles previews min_score rest)"

text \<open>
  \<open>np.argsort(similarities)[::-1]\<close>: the full ranking, before the slice \<open>[:top_k]\<close>.
\<close>

definition ranking :: "('v, 'dv) sklearn \<Rightarrow> real list \<Rightarrow> nat list" where
  "ranking lib similarities = rev (argsort lib similarities)"

text \<open>
  \<open>cosine_similarity(vectorizer.transform([question]), tfidf_matrix).flatten()\<close>: one
  score per row of the matrix.
\<close>

definition similarities :: "('v, 'dv) sklearn \<Rightarrow> 'v \<Rightarrow> 'dv list \<Rightarrow> string \<Rightarrow> real list" where
  "similarities lib v mx question = map (cosine lib (transform lib v question)) mx"

definition find_relevant ::
  "('v, 'dv) sklearn \<Rightarrow> document list \<Rightarrow> ('v, 'dv) retriever \<Rightarrow> string \<Rightarrow> int \<Rightarrow> real
     \<Rightarrow> (exn + RetrievalResult list) \<times> ('v, 'dv) retriever"
where
  "find_relevant lib documents s question top_k min_score =
     (let (built, s1) =
            (if \<not> is_indexed s \<or> vectorizer s = None then index_documents lib documents s
             else (Inr 0, s))
      in case built of
           Inl e \<Rightarrow> (Inl e, s1)
         | Inr _ \<Rightarrow>
             (case tfidf_matrix s1 of
                None \<Rightarrow> (Inr [], s1)
              | Some mx \<Rightarrow>
                  if \<not> is_indexed s1 then (Inr [], s1)
                  else
                    (case vectorizer s1 of
                       None \<Rightarrow> (Inl (Raised AttributeError ''transform''), s1)
                     | Some Unfitted \<Rightarrow> (Inl (Raised NotFittedError ''not fitted''), s1)
                     | Some (Fitted v) \<Rightarrow>
                         let sims = similarities lib v mx question;
                             top_indices = py_take top_k (ranking lib sims)
                         in (build_results sims (document_ids s1) (document_titles s1)
                               (document_previews s1) min_score top_indices, s1))))"

text \<open>
  \<open>find_relevant_documents\<close>: \<open>Document.objects.filter(id__in=doc_ids)\<close> reads the store as
  it is at that moment; \<open>doc_map\<close> is the dict built from the rows found.
\<close>

definition doc_map :: "document list \<Rightarrow> int list \<Rightarrow> (int \<rightharpoonup> document)" where
  "doc_map documents doc_ids =
     fold (\<lambda>d m. m(doc_id d \<mapsto> d)) (filter (\<lambda>d. doc_id d \<in> set doc_ids) documents) Map.empty"

fun resolve :: "(int \<rightharpoonup> document) \<Rightarrow> RetrievalResult list \<Rightarrow> (document \<times> real) list" where
  "resolve m [] = []"
| "resolve m (r # rs) =
     (case m (document_id r) of
        Some d \<Rightarrow> (d, score r) # resolve m rs
      | None \<Rightarrow> resolve m rs)"

definition find_relevant_documents ::
  "('v, 'dv) sklearn \<Rightarrow> document list \<Rightarrow> ('v, 'dv) retriever \<Rightarrow> string \<Rightarrow> int \<Rightarrow> real
     \<Rightarrow> (exn + (document \<times> real) list) \<times> ('v, 'dv) retriever"
where
  "find_relevant_documents lib documents s question top_k min_score =
     (case find_relevant lib documents s question top_k min_score of
        (Inl e, s1) \<Rightarrow> (Inl e, s1)
      | (Inr results, s1) \<Rightarrow>
          if results = [] then (Inr [], s1)
          else (Inr (resolve (doc_map documents (map document_id results)) results), s1))"

section \<open>QAChainService\<close>

text \<open>
  The language model is a LangChain object outside the repository: \<open>invoke\<close> maps a prompt
  to a response or raises. A response either has a \<open>content\<close> attribute or is turned
  into text by \<open>str\<close>.
\<close>

datatype llm_response = WithContent string | Plain string

type_synonym llm = "string \<Rightarrow> exn + llm_response"

text \<open>
  The setting \<open>USE_FAKE_LLM\<close> and the outcome of the two constructors
  \<open>_init_fake_llm\<close> and \<open>_init_huggingface_llm\<close>: each imports its packages and builds
  the model, so it either raises (a missing package, a model that cannot be loaded) or
  yields the model it assigns to \<open>_llm\<close> as its last statement.
\<close>

record qa_env =
  USE_FAKE_LLM :: bool
  init_fake_llm :: "exn + llm"
  init_huggingface_llm :: "exn + llm"

record QAChainService =
  llm_field :: "llm option"
  initialized :: bool

definition init_service :: QAChainService where
  "init_service = \<lparr>llm_field = None, initialized = False\<rparr>"

text \<open>
  \<open>_initialize\<close>: when a constructor raises, the exception leaves the method before
  \<open>_llm\<close> and \<open>_initialized\<close> are assigned, so the service is as it was.
\<close>

definition initialize :: "qa_env \<Rightarrow> QAChainService \<Rightarrow> exn + QAChainService" where
  "initialize env svc =
     (if initialized svc then Inr svc
      else
        (case (if USE_FAKE_LLM env then init_fake_llm env else init_huggingface_llm env) of
           Inl e \<Rightarrow> Inl e
         | Inr model \<Rightarrow> Inr (svc\<lparr>llm_field := Some model, initialized := True\<rparr>)))"

definition build_prompt :: "string \<Rightarrow> string \<Rightarrow> string" where
  "build_prompt question context =
     ''Answer the question based only on the following context.\<newline>'' @
     ''If the answer cannot be found in the context, say \"I cannot find the answer in the provided documents.\"\<newline>'' @
     ''\<newline>Context:\<newline>'' @ context @
     ''\<newline>\<newline>Question: '' @ question @ ''\<newline>\<newline>Answer:''"

text \<open>\<open>sep.join(parts)\<close>\<close>

fun join :: "string \<Rightarrow> string list \<Rightarrow> string" where
  "join sep [] = []"
| "join sep [p] = p"
| "join sep (p # q # ps) = p @ sep @ join sep (q # ps)"

definition build_context :: "(document \<times> real) list \<Rightarrow> string" where
  "build_context documents =
     (let context_parts =
            map (\<lambda>(doc, score). ''[Document: '' @ doc_title doc @ '']\<newline>'' @ doc_content doc @ ''\<newline>'')
              documents;
          context = join ''\<newline>---\<newline>'' context_parts
      in if length context > 4000 then take 4000 context @ ''...[truncated]'' else context)"

text \<open>
  \<open>generate_answer\<close> returns the answer, the service and the list of prompts it passed to
  \<open>_llm.invoke\<close>. The call of \<open>_initialize\<close> comes first and stands outside the
  \<open>try\<close>: what it raises leaves \<open>generate_answer\<close>. The \<open>except Exception\<close> clause turns
  whatever the invocation raises into a string; that covers a \<open>None\<close> model, whose
  \<open>invoke\<close> is an \<open>AttributeError\<close>.
\<close>

definition none_invoke_message :: string where
  "none_invoke_message =
     [CHR 0x27] @ ''NoneType'' @ [CHR 0x27] @ '' object has no attribute '' @
     [CHR 0x27] @ ''invoke'' @ [CHR 0x27]"

definition generate_answer ::
  "qa_env \<Rightarrow> QAChainService \<Rightarrow> string \<Rightarrow> (document \<times> real) list
     \<Rightarrow> (exn + string) \<times> QAChainService \<times> string list"
where
  "generate_answer env svc question documents =
     (case initialize env svc of
        Inl e \<Rightarrow> (Inl e, svc, [])
      | Inr svc1 \<Rightarrow>
          (if documents = [] then
             (Inr ''No relevant documents found to answer this question.'', svc1, [])
           else
             let prompt = build_prompt question (build_context documents) in
             (case llm_field svc1 of
                None \<Rightarrow> (Inr (''Error generating answer: '' @ none_invoke_message), svc1, [])
              | Some f \<Rightarrow>
                  (case f prompt of
                     Inl e \<Rightarrow> (Inr (''Error generating answer: '' @ str_exn e), svc1, [prompt])
                   | Inr (WithContent c) \<Rightarrow> (Inr c, svc1, [prompt])
                   | Inr (Plain t) \<Rightarrow> (Inr t, svc1, [prompt])))))"

text \<open>
  A \<open>Question\<close> row, and \<open>answer_question\<close> over the retriever singleton, the record
  store and the clock (\<open>timezone.now()\<close>).
\<close>

record question_obj =
  text_field :: string
  answer :: "string option"
  answered_at :: "nat option"
  related_documents :: "int set"

text \<open>
  The retrieval half of \<open>answer_question\<close>: \<open>refresh_index()\<close> when the singleton is not
  indexed, then \<open>find_relevant_documents(text, top_k=3, min_score=0.05)\<close>.
\<close>

definition retrieve_for_question ::
  "('v, 'dv) sklearn \<Rightarrow> document list \<Rightarrow> ('v, 'dv) retriever \<Rightarrow> string
     \<Rightarrow> (exn + (document \<times> real) list) \<times> ('v, 'dv) retriever"
where
  "retrieve_for_question lib documents rs question =
     (let (refreshed, rs1) =
            (if \<not> is_indexed rs then index_documents lib documents rs else (Inr 0, rs))
      in case refreshed of
           Inl e \<Rightarrow> (Inl e, rs1)
         | Inr _ \<Rightarrow> find_relevant_documents lib documents rs1 question 3 (5 / 100))"

definition answer_question ::
  "qa_env \<Rightarrow> ('v, 'dv) sklearn \<Rightarrow> document list \<Rightarrow> nat \<Rightarrow> QAChainService
     \<Rightarrow> ('v, 'dv) retriever \<Rightarrow> question_obj
     \<Rightarrow> (exn + string) \<times> QAChainService \<times> ('v, 'dv) retriever \<times> question_obj"
where
  "answer_question env lib documents now svc rs q =
     (case retrieve_for_question lib documents rs (text_field q) of
        (Inl e, rs1) \<Rightarrow> (Inl e, svc, rs1, q)
      | (Inr found, rs1) \<Rightarrow>
          (case generate_answer env svc (text_field q) found of
             (Inl e, svc1, prompts) \<Rightarrow> (Inl e, svc1, rs1, q)
           | (Inr a, svc1, prompts) \<Rightarrow>
               (Inr a, svc1, rs1,
                q\<lparr>answer := Some a, answered_at := Some now,
                  related_documents := set (map (\<lambda>(doc, score). doc_id doc) found)\<rparr>)))"

text \<open>
  The status of \<open>AskQuestionView.post\<close> once the request is valid: 500 when
  \<open>answer_question\<close> raises, 201 otherwise.
\<close>

definition ask_question_view_status ::
  "qa_env \<Rightarrow> ('v, 'dv) sklearn \<Rightarrow> document list \<Rightarrow> nat \<Rightarrow> QAChainService
     \<Rightarrow> ('v, 'dv) retriever \<Rightarrow> string \<Rightarrow> nat"
where
  "ask_question_view_status env lib documents now svc rs question_text =
     (case answer_question env lib documents now svc rs
             \<lparr>text_field = question_text, answer = None, answered_at = None,
              related_documents = {}\<rparr> of
        (Inl e, _) \<Rightarrow> 500
      | (Inr a, _) \<Rightarrow> 201)"

section \<open>Library contracts and a concrete library\<close>

text \<open>
  What the retriever relies on: \<open>fit_transform\<close> yields one row per document,
  \<open>np.argsort\<close> yields a permutation of the positions that sorts the scores ascending
  (numpy does not fix the order of equal scores for its default sort), and a cosine
  similarity of TF-IDF vectors is not negative: it is a sum of products of weights that
  are not negative. No upper bound is assumed: rounding can put a score above 1.
\<close>

definition fit_rows_ok :: "('v, 'dv) sklearn \<Rightarrow> bool" where
  "fit_rows_ok lib \<longleftrightarrow>
     (\<forall>contents v mx. fit_transform lib contents = Inr (v, mx) \<longrightarrow> length mx = length contents)"

definition argsort_ok :: "('v, 'dv) sklearn \<Rightarrow> bool" where
  "argsort_ok lib \<longleftrightarrow>
     (\<forall>xs. mset (argsort lib xs) = mset [0..<length xs] \<and>
           sorted (map (\<lambda>i. xs ! i) (argsort lib xs)))"

definition cosine_nonneg :: "('v, 'dv) sklearn \<Rightarrow> bool" where
  "cosine_nonneg lib \<longleftrightarrow> (\<forall>a b. 0 \<le> cosine lib a b)"

text \<open>
  The ranking order when \<open>np.argsort\<close> is stable, after the reversal: a higher score
  first, and of two equal scores the later position first.
\<close>

definition ranks_before :: "real list \<Rightarrow> nat \<Rightarrow> nat \<Rightarrow> bool" where
  "ranks_before sims i j \<longleftrightarrow> sims ! j < sims ! i \<or> (sims ! j = sims ! i \<and> j < i)"

text \<open>
  A library instance for evaluating the model on documents and questions of a single word.
  There a TF-IDF vector has one non-zero entry, so the cosine of two texts is 1 when they
  are the same word and 0 otherwise, a stop word has the zero vector, and fitting raises
  when every document is empty or a stop word. \<open>argsort\<close> is the stable sort (numpy sorts
  short arrays by insertion).
\<close>

definition stop_only :: "string \<Rightarrow> bool" where
  "stop_only c \<longleftrightarrow> c \<in> set ['''', ''the'', ''and'', ''of'']"

definition word_fit :: "string list \<Rightarrow> exn + (unit \<times> string list)" where
  "word_fit contents =
     (if list_all stop_only contents then
        Inl (Raised ValueError
              ''empty vocabulary; perhaps the documents only contain stop words'')
      else Inr ((), contents))"

definition word_cosine :: "string \<Rightarrow> string \<Rightarrow> real" where
  "word_cosine a b = (if a = b \<and> \<not> stop_only a then 1 else 0)"

definition stable_argsort :: "real list \<Rightarrow> nat list" where
  "stable_argsort xs = sort_key (\<lambda>i. xs ! i) [0..<length xs]"

definition word_lib :: "(unit, string) sklearn" where
  "word_lib =
     \<lparr>fit_transform = word_fit, transform = (\<lambda>v q. q), cosine = word_cosine,
      argsort = stable_argsort\<rparr>"

section \<open>The invariant of the index state\<close>

definition fitted_present :: "('v, 'dv) retriever \<Rightarrow> bool" where
  "fitted_present s =
     (case vectorizer s of Some (Fitted v) \<Rightarrow> True | Some Unfitted \<Rightarrow> False | None \<Rightarrow> False)"

definition matrix_rows :: "('v, 'dv) retriever \<Rightarrow> nat option" where
  "matrix_rows s = map_option length (tfidf_matrix s)"

definition arrays_consistent :: "('v, 'dv) retriever \<Rightarrow> nat \<Rightarrow> bool" where
  "arrays_consistent s n \<longleftrightarrow>
     length (document_ids s) = n \<and> length (document_titles s) = n \<and>
     length (document_previews s) = n"

text \<open>
  \<open>invariant s n\<close>, for \<open>n\<close> the size of the corpus at the last build: the flag is set
  exactly when a fitted vectorizer and a matrix are there and the arrays have \<open>n\<close> entries
  each, one per row of the matrix.
\<close>

definition invariant :: "('v, 'dv) retriever \<Rightarrow> nat \<Rightarrow> bool" where
  "invariant s n \<longleftrightarrow>
     (is_indexed s \<longleftrightarrow>
        fitted_present s \<and> matrix_rows s = Some n \<and> arrays_consistent s n)"

section \<open>Auxiliary notions for the statements\<close>

text \<open>The \<open>RetrievalResult\<close> the loop of \<open>find_relevant\<close> builds for position \<open>i\<close>.\<close>

definition result_at :: "('v, 'dv) retriever \<Rightarrow> real list \<Rightarrow> nat \<Rightarrow> RetrievalResult" where
  "result_at s sims i =
     \<lparr>document_id = document_ids s ! i, title = document_titles s ! i, score = sims ! i,
      content_preview = document_previews s ! i\<rparr>"

text \<open>
  \<open>built lib s v mx\<close>: the state \<open>s\<close> is indexed, holding the fitted vectorizer \<open>v\<close>, the
  matrix \<open>mx\<close> and arrays of one entry per row.
\<close>

definition built :: "('v, 'dv) sklearn \<Rightarrow> ('v, 'dv) retriever \<Rightarrow> 'v \<Rightarrow> 'dv list \<Rightarrow> bool" where
  "built lib s v mx \<longleftrightarrow>
     is_indexed s \<and> vectorizer s = Some (Fitted v) \<and> tfidf_matrix s = Some mx \<and>
     length (document_ids s) = length mx \<and> length (document_titles s) = length mx \<and>
     length (document_previews s) = length mx"

text \<open>Rows and collaborators for the concrete evaluations.\<close>

definition doc_learning :: document where
  "doc_learning = \<lparr>doc_id = 1, doc_title = ''Machine Learning Basics'', doc_content = ''learning''\<rparr>"

definition doc_cloud :: document where
  "doc_cloud = \<lparr>doc_id = 2, doc_title = ''Cloud Computing Guide'', doc_content = ''cloud''\<rparr>"

definition doc_learning_copy :: document where
  "doc_learning_copy = \<lparr>doc_id = 2, doc_title = ''Learning Again'', doc_content = ''learning''\<rparr>"

definition doc_the :: document where
  "doc_the = \<lparr>doc_id = 3, doc_title = ''Articles'', doc_content = ''the''\<rparr>"

definition failing_llm :: llm where
  "failing_llm prompt = Inl (Raised LLMError ''boom'')"

definition failing_env :: qa_env where
  "failing_env =
     \<lparr>USE_FAKE_LLM = True, init_fake_llm = Inr failing_llm,
      init_huggingface_llm = Inr failing_llm\<rparr>"

text \<open>
  The default setting \<open>USE_FAKE_LLM = False\<close> on a host where the HuggingFace model
  cannot be loaded.
\<close>

definition unloadable_env :: qa_env where
  "unloadable_env =
     \<lparr>USE_FAKE_LLM = False, init_fake_llm = Inr failing_llm,
      init_huggingface_llm = Inl (Raised OSError ''cannot load google/flan-t5-base'')\<rparr>"

text \<open>
  The index states the builds below produce: over the two documents "learning" and
  "cloud", over "learning" alone, and over two documents with the same content.
\<close>

definition index_two :: "(unit, string) retriever" where
  "index_two =
     \<lparr>vectorizer = Some (Fitted ()), tfidf_matrix = Some [''learning'', ''cloud''],
      document_ids = [1, 2],
      document_titles = [''Machine Learning Basics'', ''Cloud Computing Guide''],
      document_previews = [''learning'', ''cloud''], is_indexed = True\<rparr>"

definition index_one :: "(unit, string) retriever" where
  "index_one =
     \<lparr>vectorizer = Some (Fitted ()), tfidf_matrix = Some [''learning''],
      document_ids = [1], document_titles = [''Machine Learning Basics''],
      document_previews = [''learning''], is_indexed = True\<rparr>"

definition index_tied :: "(unit, string) retriever" where
  "index_tied =
     \<lparr>vectorizer = Some (Fitted ()), tfidf_matrix = Some [''learning'', ''learning''],
      document_ids = [1, 2],
      document_titles = [''Machine Learning Basics'', ''Learning Again''],
      document_previews = [''learning'', ''learning''], is_indexed = True\<rparr>"

text \<open>
  The state a failed rebuild of \<open>index_two\<close> leaves, when the store has come to hold the
  single document "the".
\<close>

definition torn_index :: "(unit, string) retriever" where
  "torn_index =
     \<lparr>vectorizer = Some Unfitted, tfidf_matrix = Some [''learning'', ''cloud''],
      document_ids = [3], document_titles = [''Articles''], document_previews = [''the''],
      is_indexed = True\<rparr>"

section \<open>Facts about the retriever\<close>

lemma build_results_in_range:
  assumes "\<forall>i \<in> set idxs. i < length sims \<and> i < length (document_ids s) \<and>
             i < length (document_titles s) \<and> i < length (document_previews s)"
  shows "build_results sims (document_ids s) (document_titles s) (document_previews s) m idxs =
           Inr (map (result_at s sims) (filter (\<lambda>i. sims ! i \<ge> m) idxs))"
  using assms by (induction idxs) (auto simp: result_at_def)

lemma set_py_take: "set (py_take k xs) \<subseteq> set xs"
  by (auto simp: py_take_def dest: in_set_takeD)

lemma set_ranking:
  assumes "argsort_ok lib"
  shows "set (ranking lib sims) = {0..<length sims}"
proof -
  from assms have "mset (argsort lib sims) = mset [0..<length sims]"
    by (simp add: argsort_ok_def)
  then have "set (argsort lib sims) = set [0..<length sims]"
    by (rule mset_eq_setD)
  then show ?thesis by (simp add: ranking_def)
qed

lemma index_documents_success:
  assumes "documents \<noteq> []" and "fit_transform lib (map doc_content documents) = Inr (v, mx)"
  shows "index_documents lib documents s =
           (Inr (int (length documents)),
            s\<lparr>document_ids := map doc_id documents,
              document_titles := map doc_title documents,
              document_previews := map (\<lambda>d. preview (doc_content d)) documents,
              vectorizer := Some (Fitted v), tfidf_matrix := Some mx, is_indexed := True\<rparr>)"
  using assms by (simp add: index_documents_def)

lemma index_documents_failure:
  assumes "documents \<noteq> []" and "fit_transform lib (map doc_content documents) = Inl e"
  shows "index_documents lib documents s =
           (Inl e,
            s\<lparr>document_ids := map doc_id documents,
              document_titles := map doc_title documents,
              document_previews := map (\<lambda>d. preview (doc_content d)) documents,
              vectorizer := Some Unfitted\<rparr>)"
  using assms by (simp add: index_documents_def)

text \<open>A build that returns leaves a built state, with one row per document of the corpus.\<close>

lemma index_documents_built:
  assumes "fit_rows_ok lib" and "documents \<noteq> []"
    and "index_documents lib documents s0 = (Inr n, s)"
  shows "\<exists>v mx. built lib s v mx \<and> length mx = length documents \<and> n = int (length documents)
           \<and> document_ids s = map doc_id documents"
proof (cases "fit_transform lib (map doc_content documents)")
  case (Inl e)
  with assms(2,3) show ?thesis by (simp add: index_documents_failure)
next
  case (Inr p)
  obtain v mx where p: "p = (v, mx)" by (cases p)
  with Inr have fit: "fit_transform lib (map doc_content documents) = Inr (v, mx)" by simp
  with assms(1) have len: "length mx = length documents"
    by (auto simp: fit_rows_ok_def)
  from assms(2,3) fit have "n = int (length documents)" and
    "s = s0\<lparr>document_ids := map doc_id documents,
              document_titles := map doc_title documents,
              document_previews := map (\<lambda>d. preview (doc_content d)) documents,
              vectorizer := Some (Fitted v), tfidf_matrix := Some mx, is_indexed := True\<rparr>"
    by (simp_all add: index_documents_success)
  with len show ?thesis by (auto simp: built_def)
qed

text \<open>
  On a built state \<open>find_relevant\<close> does not rebuild and does not raise: it returns the
  results for the positions of the truncated ranking whose score reaches \<open>min_score\<close>.
\<close>

lemma find_relevant_built:
  assumes "argsort_ok lib" and "built lib s v mx"
  shows "find_relevant lib store s question top_k min_score =
           (Inr (map (result_at s (similarities lib v mx question))
                  (filter (\<lambda>i. similarities lib v mx question ! i \<ge> min_score)
                     (py_take top_k (ranking lib (similarities lib v mx question))))), s)"
proof -
  let ?sims = "similarities lib v mx question"
  have len: "length ?sims = length mx" by (simp add: similarities_def)
  have "\<forall>i \<in> set (py_take top_k (ranking lib ?sims)). i < length mx"
    using set_py_take[of top_k "ranking lib ?sims"] set_ranking[OF assms(1), of ?sims] len
    by auto
  with assms(2) len have
    "build_results ?sims (document_ids s) (document_titles s) (document_previews s) min_score
       (py_take top_k (ranking lib ?sims)) =
     Inr (map (result_at s ?sims) (filter (\<lambda>i. ?sims ! i \<ge> min_score)
            (py_take top_k (ranking lib ?sims))))"
    by (intro build_results_in_range) (auto simp: built_def)
  with assms(2) show ?thesis
    by (simp add: find_relevant_def built_def Let_def)
qed

lemma ranking_descending:
  assumes "argsort_ok lib"
  shows "sorted_wrt (\<lambda>i j. sims ! j \<le> sims ! i) (ranking lib sims)"
proof -
  from assms have "sorted (map (\<lambda>i. sims ! i) (argsort lib sims))"
    by (simp add: argsort_ok_def)
  then have "sorted_wrt (\<lambda>i j. sims ! i \<le> sims ! j) (argsort lib sims)"
    by (simp add: sorted_map)
  then show ?thesis by (simp add: ranking_def sorted_wrt_rev)
qed

lemma ranking_permutation:
  assumes "argsort_ok lib"
  shows "mset (ranking lib sims) = mset [0..<length sims]"
  using assms by (simp add: ranking_def argsort_ok_def)

lemma length_py_take:
  assumes "0 \<le> k"
  shows "int (length (py_take k xs)) \<le> k"
  using assms by (simp add: py_take_def)

lemma similarities_nth:
  assumes "i < length mx"
  shows "similarities lib v mx question ! i = cosine lib (transform lib v question) (mx ! i)"
  using assms by (simp add: similarities_def)

text \<open>The concrete library meets the contracts, and the concrete builds.\<close>

lemma word_lib_fit_rows: "fit_rows_ok word_lib"
  by (auto simp: fit_rows_ok_def word_lib_def word_fit_def split: if_splits)

lemma word_lib_argsort: "argsort_ok word_lib"
  by (simp add: argsort_ok_def word_lib_def stable_argsort_def)

lemma word_lib_cosine: "cosine_nonneg word_lib"
  by (simp add: cosine_nonneg_def word_lib_def word_cosine_def)

lemma word_lib_stable: "argsort word_lib = stable_argsort"
  by (simp add: word_lib_def)

lemmas word_eval = index_documents_def find_relevant_def word_lib_def word_fit_def
  word_cosine_def stable_argsort_def stop_only_def init_retriever_def doc_learning_def
  doc_cloud_def doc_learning_copy_def doc_the_def preview_def similarities_def ranking_def
  py_take_def

lemma build_index_two:
  "index_documents word_lib [doc_learning, doc_cloud] init_retriever = (Inr 2, index_two)"
  by (simp add: word_eval index_two_def)

lemma build_index_one:
  "index_documents word_lib [doc_learning] init_retriever = (Inr 1, index_one)"
  by (simp add: word_eval index_one_def)

lemma build_index_tied:
  "index_documents word_lib [doc_learning, doc_learning_copy] init_retriever =
     (Inr 2, index_tied)"
  by (simp add: word_eval index_tied_def)

text \<open>The dict \<open>doc_map\<close> and the comprehension over the results.\<close>

lemma fold_update_Some:
  assumes "fold (\<lambda>d m. m(doc_id d \<mapsto> d)) ds m0 i = Some d"
  shows "(d \<in> set ds \<and> doc_id d = i) \<or> m0 i = Some d"
  using assms by (induction ds arbitrary: m0) (fastforce split: if_splits)+

lemma fold_update_None:
  "fold (\<lambda>d m. m(doc_id d \<mapsto> d)) ds m0 i = None \<longleftrightarrow> m0 i = None \<and> i \<notin> doc_id ` set ds"
  by (induction ds arbitrary: m0) auto

lemma doc_map_Some:
  assumes "doc_map documents ids i = Some d"
  shows "d \<in> set documents \<and> doc_id d = i \<and> i \<in> set ids"
  using fold_update_Some [of "filter (\<lambda>d. doc_id d \<in> set ids) documents" Map.empty i d] assms
  by (auto simp: doc_map_def)

lemma doc_map_None:
  "doc_map documents ids i = None \<longleftrightarrow> \<not> (i \<in> set ids \<and> i \<in> doc_id ` set documents)"
  by (auto simp: doc_map_def fold_update_None)

lemma resolve_spec:
  assumes "\<And>i d. m i = Some d \<Longrightarrow> doc_id d = i"
  shows "map (\<lambda>(d, sc). (doc_id d, sc)) (resolve m rs) =
           map (\<lambda>r. (document_id r, score r)) (filter (\<lambda>r. m (document_id r) \<noteq> None) rs)"
  using assms by (induction rs) (auto split: option.splits)

lemma resolve_range:
  assumes "\<And>i d. m i = Some d \<Longrightarrow> d \<in> D"
  shows "fst ` set (resolve m rs) \<subseteq> D"
  using assms by (induction rs) (auto split: option.splits)

lemma stale_query:
  "find_relevant word_lib [doc_cloud] index_two ''learning'' 3 0 =
     (Inr [\<lparr>document_id = 1, title = ''Machine Learning Basics'', score = 1,
            content_preview = ''learning''\<rparr>,
           \<lparr>document_id = 2, title = ''Cloud Computing Guide'', score = 0,
            content_preview = ''cloud''\<rparr>], index_two)"
  by (simp add: word_eval index_two_def)

lemma retrieve_example:
  "retrieve_for_question word_lib [doc_learning] init_retriever ''learning'' =
     (Inr [(doc_learning, 1)], index_one)"
  by (simp add: retrieve_for_question_def find_relevant_documents_def doc_map_def word_eval
        index_one_def)

text \<open>Where the invariant does hold: after \<open>clear_index\<close>, after a build over an empty store, and after a build that returns.\<close>

lemma clear_index_invariant: "invariant (clear_index s) n"
  by (simp add: invariant_def clear_index_def fitted_present_def)

lemma empty_build_invariant: "invariant (snd (index_documents lib [] s)) 0"
  by (simp add: invariant_def index_documents_def fitted_present_def)

lemma successful_build_invariant:
  assumes "fit_rows_ok lib" and "documents \<noteq> []"
    and "index_documents lib documents s0 = (Inr n, s)"
  shows "invariant s (length documents)"
proof -
  from index_documents_built [OF assms] obtain v mx
    where "built lib s v mx" and "length mx = length documents" by blast
  then show ?thesis
    by (simp add: invariant_def built_def fitted_present_def matrix_rows_def
          arrays_consistent_def)
qed

lemma torn_index_never_invariant: "\<not> invariant torn_index n"
  by (simp add: invariant_def torn_index_def fitted_present_def)


text \<open>The order a stable \<open>argsort\<close> gives, and the score of a result.\<close>

lemma insort_key_ranks:
  fixes f :: "nat \<Rightarrow> real"
  assumes "sorted_wrt (\<lambda>i j. f i < f j \<or> (f i = f j \<and> i < j)) ys"
    and "\<forall>y \<in> set ys. x < y"
  shows "sorted_wrt (\<lambda>i j. f i < f j \<or> (f i = f j \<and> i < j)) (insort_key f x ys)"
  using assms
proof (induction ys)
  case Nil
  then show ?case by simp
next
  case (Cons y ys)
  show ?case
  proof (cases "f x \<le> f y")
    case True
    have "f x < f z \<or> (f x = f z \<and> x < z)" if "z \<in> set (y # ys)" for z
    proof -
      from that Cons.prems(1) have "f y \<le> f z" by auto
      with True have "f x \<le> f z" by simp
      moreover from that Cons.prems(2) have "x < z" by auto
      ultimately show ?thesis by auto
    qed
    with True Cons.prems(1) show ?thesis by simp
  next
    case False
    from Cons have "sorted_wrt (\<lambda>i j. f i < f j \<or> (f i = f j \<and> i < j)) (insort_key f x ys)"
      by simp
    moreover have "f y < f z \<or> (f y = f z \<and> y < z)" if "z \<in> set (insort_key f x ys)" for z
      using that False Cons.prems(1) by (auto simp: set_insort_key)
    ultimately show ?thesis using False by simp
  qed
qed

lemma sort_key_ranks:
  fixes f :: "nat \<Rightarrow> real"
  assumes "sorted_wrt (<) xs"
  shows "sorted_wrt (\<lambda>i j. f i < f j \<or> (f i = f j \<and> i < j)) (sort_key f xs)"
  using assms
proof (induction xs)
  case Nil
  then show ?case by simp
next
  case (Cons x xs)
  then have "sorted_wrt (\<lambda>i j. f i < f j \<or> (f i = f j \<and> i < j)) (sort_key f xs)"
    and "\<forall>y \<in> set (sort_key f xs). x < y" by simp_all
  then show ?case using insort_key_ranks [of f "sort_key f xs" x] by simp
qed

lemma stable_ranking_order:
  assumes "argsort lib = stable_argsort"
  shows "sorted_wrt (ranks_before sims) (ranking lib sims)"
proof -
  have "sorted_wrt (<) [0..<length sims]" by simp
  then have "sorted_wrt (\<lambda>i j. sims ! i < sims ! j \<or> (sims ! i = sims ! j \<and> i < j))
               (sort_key (\<lambda>i. sims ! i) [0..<length sims])"
    by (rule sort_key_ranks)
  then have "sorted_wrt (\<lambda>i j. sims ! j < sims ! i \<or> (sims ! j = sims ! i \<and> j < i))
               (rev (sort_key (\<lambda>i. sims ! i) [0..<length sims]))"
    by (simp add: sorted_wrt_rev)
  then show ?thesis
    using assms by (simp add: ranking_def stable_argsort_def ranks_before_def [abs_def])
qed

lemma score_result_at: "score (result_at s sims i) = sims ! i"
  by (simp add: result_at_def)

section \<open>Building the index\<close>

text \<open>
  C2. When the record store holds no document, \<open>index_documents\<close> returns 0 and leaves
  \<open>is_indexed\<close> false, and a following \<open>find_relevant\<close>, for every question, \<open>top_k\<close> and
  \<open>min_score\<close>, returns the empty list and does not raise.
\<close>

theorem empty_corpus_build_and_query:
  "fst (index_documents lib [] s) = Inr 0 \<and>
   \<not> is_indexed (snd (index_documents lib [] s)) \<and>
   fst (find_relevant lib [] (snd (index_documents lib [] s)) question top_k min_score) = Inr []"
  by (simp add: index_documents_def find_relevant_def)

theorem empty_corpus_witness:
  "fst (index_documents word_lib [] init_retriever) = Inr 0 \<and>
   \<not> is_indexed (snd (index_documents word_lib [] init_retriever)) \<and>
   fst (find_relevant word_lib [] (snd (index_documents word_lib [] init_retriever))
          ''any query'' 3 0) = Inr []"
  using empty_corpus_build_and_query [of word_lib init_retriever "''any query''" 3 0] by simp

text \<open>
  C9, as stated, fails: a corpus whose only document is the stop word "the" is not empty,
  and \<open>index_documents\<close> raises the vectorizer's \<open>ValueError\<close> instead of returning 1.
\<close>

theorem build_stop_words_raises:
  "fst (index_documents word_lib [doc_the] init_retriever) =
     Inl (Raised ValueError ''empty vocabulary; perhaps the documents only contain stop words'')"
  by (simp add: index_documents_def word_lib_def word_fit_def stop_only_def doc_the_def
        init_retriever_def)

text \<open>
  C9, amended. For every non-empty corpus on which fitting the vectorizer succeeds,
  \<open>index_documents\<close> returns exactly the number of documents of the corpus, and afterwards
  \<open>is_indexed\<close> is true and \<open>document_count\<close> is that number.
\<close>

theorem build_returns_count:
  assumes "documents \<noteq> []" and "fit_transform lib (map doc_content documents) = Inr (v, mx)"
  shows "fst (index_documents lib documents s) = Inr (int (length documents)) \<and>
         is_indexed (snd (index_documents lib documents s)) \<and>
         document_count (snd (index_documents lib documents s)) = int (length documents)"
  using assms by (simp add: index_documents_def document_count_def)

theorem build_returns_count_witness:
  "[doc_learning, doc_cloud] \<noteq> [] \<and>
   fit_transform word_lib (map doc_content [doc_learning, doc_cloud]) =
     Inr ((), [''learning'', ''cloud'']) \<and>
   fst (index_documents word_lib [doc_learning, doc_cloud] init_retriever) = Inr 2 \<and>
   is_indexed (snd (index_documents word_lib [doc_learning, doc_cloud] init_retriever)) \<and>
   document_count (snd (index_documents word_lib [doc_learning, doc_cloud] init_retriever)) = 2"
proof -
  have h1: "[doc_learning, doc_cloud] \<noteq> []" by simp
  have h2: "fit_transform word_lib (map doc_content [doc_learning, doc_cloud]) =
              Inr ((), [''learning'', ''cloud''])"
    by (simp add: word_lib_def word_fit_def stop_only_def doc_learning_def doc_cloud_def)
  from build_returns_count [OF h1 h2, of init_retriever] h1 h2 show ?thesis by simp
qed

section \<open>Generating answers\<close>

text \<open>
  C10, as stated, fails: \<open>_initialize\<close> runs before the test for an empty list and
  outside any handler. With the default setting \<open>USE_FAKE_LLM = False\<close> on a host that
  cannot load the HuggingFace model, \<open>generate_answer\<close> with no documents raises instead
  of returning the fixed string.
\<close>

theorem initialize_failure_counterexample:
  "generate_answer unloadable_env init_service ''What is machine learning?'' [] =
     (Inl (Raised OSError ''cannot load google/flan-t5-base''), init_service, [])"
  by (simp add: generate_answer_def initialize_def init_service_def unloadable_env_def)

text \<open>
  C10, amended. Whenever \<open>_initialize\<close> succeeds (the service is initialized already, or
  the model can be constructed), \<open>generate_answer\<close> called with an empty list of
  retrieved documents returns exactly the string "No relevant documents found to answer
  this question.", for every question, and passes no prompt to the language model.
\<close>

theorem generate_answer_no_documents:
  assumes "initialize env svc = Inr svc1"
  shows "generate_answer env svc question [] =
           (Inr ''No relevant documents found to answer this question.'', svc1, [])"
  using assms by (simp add: generate_answer_def)

theorem generate_answer_no_documents_witness:
  "initialize failing_env init_service = Inr \<lparr>llm_field = Some failing_llm, initialized = True\<rparr> \<and>
   generate_answer failing_env init_service ''What is machine learning?'' [] =
     (Inr ''No relevant documents found to answer this question.'',
      \<lparr>llm_field = Some failing_llm, initialized = True\<rparr>, [])"
proof -
  have h: "initialize failing_env init_service =
             Inr \<lparr>llm_field = Some failing_llm, initialized = True\<rparr>"
    by (simp add: initialize_def init_service_def failing_env_def)
  from generate_answer_no_documents [OF h, of "''What is machine learning?''"] h
  show ?thesis by simp
qed

section \<open>Ranking and filtering\<close>

text \<open>
  C1, as stated, fails on the order of equal scores. Over two documents with the same
  content, both scoring 1 for the question, the stable \<open>argsort\<close> yields the positions
  0, 1 and the reversal puts position 1 first: the document with id 2 precedes the one
  with id 1.
\<close>

theorem tie_order_counterexample:
  "fst (find_relevant word_lib [doc_learning, doc_learning_copy] index_tied ''learning'' 3 0) =
     Inr [\<lparr>document_id = 2, title = ''Learning Again'', score = 1,
           content_preview = ''learning''\<rparr>,
          \<lparr>document_id = 1, title = ''Machine Learning Basics'', score = 1,
           content_preview = ''learning''\<rparr>]"
  by (simp add: word_eval index_tied_def)

text \<open>
  C1, amended. On a built index the ranking step yields every position of the corpus
  exactly once, ordered by score from high to low; when \<open>np.argsort\<close> is stable, two
  documents of equal score come in descending order of their position, so the ranking is
  strictly descending in score and then position; and \<open>find_relevant\<close> returns the
  results of that ranking, truncated and filtered: a function of its inputs.
\<close>

theorem ranking_full_descending:
  assumes "fit_rows_ok lib" and "argsort_ok lib" and "documents \<noteq> []"
    and "index_documents lib documents s0 = (Inr n, s)"
  shows "\<exists>v mx. vectorizer s = Some (Fitted v) \<and> tfidf_matrix s = Some mx \<and>
           mset (ranking lib (similarities lib v mx question)) = mset [0..<length documents] \<and>
           sorted_wrt (\<lambda>i j. similarities lib v mx question ! j \<le> similarities lib v mx question ! i)
             (ranking lib (similarities lib v mx question)) \<and>
           (argsort lib = stable_argsort \<longrightarrow>
              sorted_wrt (ranks_before (similarities lib v mx question))
                (ranking lib (similarities lib v mx question))) \<and>
           fst (find_relevant lib store s question top_k min_score) =
             Inr (map (result_at s (similarities lib v mx question))
                    (filter (\<lambda>i. min_score \<le> similarities lib v mx question ! i)
                       (py_take top_k (ranking lib (similarities lib v mx question)))))"
proof -
  from index_documents_built [OF assms(1,3,4)] obtain v mx
    where b: "built lib s v mx" and len: "length mx = length documents"
    by blast
  have "length (similarities lib v mx question) = length documents"
    using len by (simp add: similarities_def)
  with ranking_permutation [OF assms(2), of "similarities lib v mx question"]
  have "mset (ranking lib (similarities lib v mx question)) = mset [0..<length documents]"
    by simp
  moreover note ranking_descending [OF assms(2), of "similarities lib v mx question"]
  moreover have "argsort lib = stable_argsort \<longrightarrow>
      sorted_wrt (ranks_before (similarities lib v mx question))
        (ranking lib (similarities lib v mx question))"
    by (simp add: stable_ranking_order)
  moreover have "fst (find_relevant lib store s question top_k min_score) =
             Inr (map (result_at s (similarities lib v mx question))
                    (filter (\<lambda>i. min_score \<le> similarities lib v mx question ! i)
                       (py_take top_k (ranking lib (similarities lib v mx question)))))"
    by (simp add: find_relevant_built [OF assms(2) b])
  moreover from b have "vectorizer s = Some (Fitted v)" "tfidf_matrix s = Some mx"
    by (simp_all add: built_def)
  ultimately show ?thesis by blast
qed

theorem ranking_full_descending_witness:
  "fit_rows_ok word_lib \<and> argsort_ok word_lib \<and> [doc_learning, doc_learning_copy] \<noteq> [] \<and>
   index_documents word_lib [doc_learning, doc_learning_copy] init_retriever =
     (Inr 2, index_tied) \<and>
   argsort word_lib = stable_argsort \<and>
   (\<exists>v mx. vectorizer index_tied = Some (Fitted v) \<and> tfidf_matrix index_tied = Some mx \<and>
      mset (ranking word_lib (similarities word_lib v mx ''learning'')) =
        mset [0..<length [doc_learning, doc_learning_copy]] \<and>
      sorted_wrt (\<lambda>i j. similarities word_lib v mx ''learning'' ! j
                        \<le> similarities word_lib v mx ''learning'' ! i)
        (ranking word_lib (similarities word_lib v mx ''learning'')) \<and>
      sorted_wrt (ranks_before (similarities word_lib v mx ''learning''))
        (ranking word_lib (similarities word_lib v mx ''learning'')) \<and>
      fst (find_relevant word_lib [] index_tied ''learning'' 3 0) =
        Inr (map (result_at index_tied (similarities word_lib v mx ''learning''))
               (filter (\<lambda>i. 0 \<le> similarities word_lib v mx ''learning'' ! i)
                  (py_take 3 (ranking word_lib (similarities word_lib v mx ''learning''))))))"
proof -
  have h: "[doc_learning, doc_learning_copy] \<noteq> []" by simp
  from ranking_full_descending [OF word_lib_fit_rows word_lib_argsort h build_index_tied,
      of "''learning''" "[]" 3 0]
    word_lib_fit_rows word_lib_argsort build_index_tied h word_lib_stable
  show ?thesis by blast
qed

text \<open>
  C6. On a built index, for every question and \<open>top_k\<close> and thresholds \<open>m1 < m2\<close>, both
  queries return, the results at \<open>m2\<close> are a subsequence of the results at \<open>m1\<close>, and no
  document id appears at \<open>m2\<close> that is absent at \<open>m1\<close>.
\<close>

theorem threshold_monotone:
  assumes "fit_rows_ok lib" and "argsort_ok lib" and "documents \<noteq> []"
    and "index_documents lib documents s0 = (Inr n, s)" and "m1 < m2"
  shows "\<exists>r1 r2. find_relevant lib store s question top_k m1 = (Inr r1, s) \<and>
                 find_relevant lib store s question top_k m2 = (Inr r2, s) \<and>
                 subseq r2 r1 \<and> set (map document_id r2) \<subseteq> set (map document_id r1)"
proof -
  from index_documents_built [OF assms(1,3,4)] obtain v mx where b: "built lib s v mx"
    by blast
  let ?sims = "similarities lib v mx question"
  let ?top = "py_take top_k (ranking lib ?sims)"
  let ?r1 = "map (result_at s ?sims) (filter (\<lambda>i. ?sims ! i \<ge> m1) ?top)"
  let ?r2 = "map (result_at s ?sims) (filter (\<lambda>i. ?sims ! i \<ge> m2) ?top)"
  have f1: "find_relevant lib store s question top_k m1 = (Inr ?r1, s)"
    by (rule find_relevant_built [OF assms(2) b])
  have f2: "find_relevant lib store s question top_k m2 = (Inr ?r2, s)"
    by (rule find_relevant_built [OF assms(2) b])
  have "filter (\<lambda>i. ?sims ! i \<ge> m2) ?top =
        filter (\<lambda>i. ?sims ! i \<ge> m2) (filter (\<lambda>i. ?sims ! i \<ge> m1) ?top)"
    using assms(5) by (auto intro: filter_cong)
  then have "subseq (filter (\<lambda>i. ?sims ! i \<ge> m2) ?top) (filter (\<lambda>i. ?sims ! i \<ge> m1) ?top)"
    by (metis subseq_filter_left)
  then have sub: "subseq ?r2 ?r1" by (rule subseq_map)
  have "set (filter (\<lambda>i. ?sims ! i \<ge> m2) ?top) \<subseteq> set (filter (\<lambda>i. ?sims ! i \<ge> m1) ?top)"
    using assms(5) by auto
  then have "set (map document_id ?r2) \<subseteq> set (map document_id ?r1)"
    unfolding set_map by blast
  with f1 f2 sub show ?thesis by blast
qed

theorem threshold_monotone_witness:
  "fit_rows_ok word_lib \<and> argsort_ok word_lib \<and> [doc_learning, doc_cloud] \<noteq> [] \<and>
   index_documents word_lib [doc_learning, doc_cloud] init_retriever = (Inr 2, index_two) \<and>
   (0::real) < 1 / 2 \<and>
   (\<exists>r1 r2.
       find_relevant word_lib [doc_learning, doc_cloud] index_two ''learning'' 3 0 =
         (Inr r1, index_two) \<and>
       find_relevant word_lib [doc_learning, doc_cloud] index_two ''learning'' 3 (1 / 2) =
         (Inr r2, index_two) \<and>
       subseq r2 r1 \<and> set (map document_id r2) \<subseteq> set (map document_id r1))"
proof -
  have h: "[doc_learning, doc_cloud] \<noteq> []" "(0::real) < 1 / 2" by simp_all
  from threshold_monotone [OF word_lib_fit_rows word_lib_argsort h(1) build_index_two h(2)]
    word_lib_fit_rows word_lib_argsort build_index_two h
  show ?thesis by blast
qed

text \<open>
  C7. On a built index, for every question and \<open>min_score\<close> and every valid
  \<open>top_k\<close> (the request layer admits \<open>top_k \<ge> 1\<close> only): the result has at most
  \<open>top_k\<close> entries, and for \<open>k2 > k1\<close> both queries return, the results for \<open>k1\<close> are
  a prefix of the results for \<open>k2\<close>, no id returned for \<open>k1\<close> is missing for \<open>k2\<close>, and
  every result appended scores no more than any result already there.
\<close>

theorem top_k_prefix:
  assumes "fit_rows_ok lib" and "argsort_ok lib" and "documents \<noteq> []"
    and "index_documents lib documents s0 = (Inr n, s)" and "1 \<le> k1" and "k1 < k2"
  shows "\<exists>r1 r2. find_relevant lib store s question k1 m = (Inr r1, s) \<and>
                 find_relevant lib store s question k2 m = (Inr r2, s) \<and>
                 int (length r1) \<le> k1 \<and> int (length r2) \<le> k2 \<and> prefix r1 r2 \<and>
                 set (map document_id r1) \<subseteq> set (map document_id r2) \<and>
                 (\<forall>a \<in> set r1. \<forall>b \<in> set (drop (length r1) r2). score b \<le> score a)"
proof -
  from index_documents_built [OF assms(1,3,4)] obtain v mx where b: "built lib s v mx"
    by blast
  let ?sims = "similarities lib v mx question"
  let ?R = "ranking lib ?sims"
  let ?P = "\<lambda>i. ?sims ! i \<ge> m"
  let ?f = "result_at s ?sims"
  let ?r1 = "map ?f (filter ?P (py_take k1 ?R))"
  let ?r2 = "map ?f (filter ?P (py_take k2 ?R))"
  have k1: "0 \<le> k1" using assms(5) by simp
  have f1: "find_relevant lib store s question k1 m = (Inr ?r1, s)"
    by (rule find_relevant_built [OF assms(2) b])
  have f2: "find_relevant lib store s question k2 m = (Inr ?r2, s)"
    by (rule find_relevant_built [OF assms(2) b])
  have "length ?r1 \<le> length (py_take k1 ?R)" by simp
  with length_py_take [OF k1, of ?R] have l1: "int (length ?r1) \<le> k1" by linarith
  have "0 \<le> k2" using k1 assms(6) by simp
  moreover have "length ?r2 \<le> length (py_take k2 ?R)" by simp
  ultimately have l2: "int (length ?r2) \<le> k2"
    using length_py_take [of k2 ?R] by linarith
  have t1: "py_take k1 ?R = take (nat k1) ?R" and t2: "py_take k2 ?R = take (nat k2) ?R"
    using k1 assms(6) by (simp_all add: py_take_def)
  have split: "take (nat k2) ?R = take (nat k1) ?R @ take (nat k2 - nat k1) (drop (nat k1) ?R)"
    using k1 assms(6) by (metis add_diff_inverse_nat less_imp_le nat_less_eq_zless not_le take_add)
  let ?ext = "map ?f (filter ?P (take (nat k2 - nat k1) (drop (nat k1) ?R)))"
  have r2: "?r2 = ?r1 @ ?ext" by (simp add: t1 t2 split)
  then have pre: "prefix ?r1 ?r2" by (simp add: prefixI)
  from r2 have "set ?r1 \<subseteq> set ?r2" by (metis set_append Un_upper1)
  then have ids: "set (map document_id ?r1) \<subseteq> set (map document_id ?r2)"
    unfolding set_map by blast
  have "sorted_wrt (\<lambda>i j. ?sims ! j \<le> ?sims ! i) (take (nat k1) ?R @ drop (nat k1) ?R)"
    using ranking_descending [OF assms(2), of ?sims] by simp
  then have ord: "\<forall>i \<in> set (take (nat k1) ?R). \<forall>j \<in> set (drop (nat k1) ?R). ?sims ! j \<le> ?sims ! i"
    unfolding sorted_wrt_append by blast
  have "\<forall>a \<in> set ?r1. \<forall>b \<in> set ?ext. score b \<le> score a"
  proof (intro ballI)
    fix a b assume "a \<in> set ?r1" and "b \<in> set ?ext"
    then obtain i j where i: "i \<in> set (take (nat k1) ?R)" "a = ?f i"
      and j: "j \<in> set (drop (nat k1) ?R)" "b = ?f j"
      by (auto simp: t1 dest: in_set_takeD)
    with ord show "score b \<le> score a" by (simp add: result_at_def)
  qed
  moreover have "drop (length ?r1) ?r2 = ?ext" by (subst r2) simp
  ultimately have "\<forall>a \<in> set ?r1. \<forall>b \<in> set (drop (length ?r1) ?r2). score b \<le> score a"
    by simp
  with f1 f2 l1 l2 pre ids show ?thesis by blast
qed

theorem top_k_prefix_witness:
  "fit_rows_ok word_lib \<and> argsort_ok word_lib \<and> [doc_learning, doc_cloud] \<noteq> [] \<and>
   index_documents word_lib [doc_learning, doc_cloud] init_retriever = (Inr 2, index_two) \<and>
   (1::int) \<le> 1 \<and> (1::int) < 2 \<and>
   (\<exists>r1 r2. find_relevant word_lib [] index_two ''learning'' 1 0 = (Inr r1, index_two) \<and>
       find_relevant word_lib [] index_two ''learning'' 2 0 = (Inr r2, index_two) \<and>
       int (length r1) \<le> 1 \<and> int (length r2) \<le> 2 \<and> prefix r1 r2 \<and>
       set (map document_id r1) \<subseteq> set (map document_id r2) \<and>
       (\<forall>a \<in> set r1. \<forall>b \<in> set (drop (length r1) r2). score b \<le> score a))"
proof -
  have h: "[doc_learning, doc_cloud] \<noteq> []" "(1::int) \<le> 1" "(1::int) < 2" by simp_all
  from top_k_prefix [OF word_lib_fit_rows word_lib_argsort h(1) build_index_two h(2,3),
      of "[]" "''learning''" 0]
    word_lib_fit_rows word_lib_argsort build_index_two h
  show ?thesis by blast
qed

text \<open>
  C5, as stated, fails above 1: for the question "learning" over the single document
  "learning" the score is exactly 1, so \<open>min_score = 2\<close> returns nothing while
  \<open>min_score = 1\<close>, the nearest bound, returns the document.
\<close>

theorem min_score_above_one_counterexample:
  "fst (find_relevant word_lib [doc_learning] index_one ''learning'' 3 2) = Inr [] \<and>
   fst (find_relevant word_lib [doc_learning] index_one ''learning'' 3 1) =
     Inr [\<lparr>document_id = 1, title = ''Machine Learning Basics'', score = 1,
           content_preview = ''learning''\<rparr>]"
  by (simp add: word_eval index_one_def)

text \<open>
  C5, amended. On a built index, for every question, \<open>top_k\<close> and \<open>min_score\<close>,
  \<open>find_relevant\<close> returns and does not raise; a negative \<open>min_score\<close> gives exactly the
  results of \<open>min_score = 0\<close>; a \<open>min_score\<close> above 1 is not clamped: it gives the
  results of \<open>min_score = 1\<close> without those that score below \<open>min_score\<close>.
\<close>

theorem min_score_out_of_range:
  assumes "fit_rows_ok lib" and "argsort_ok lib" and "cosine_nonneg lib" and "documents \<noteq> []"
    and "index_documents lib documents s0 = (Inr n, s)"
  shows "(\<exists>r. find_relevant lib store s question top_k m = (Inr r, s)) \<and>
         (m < 0 \<longrightarrow> find_relevant lib store s question top_k m =
                     find_relevant lib store s question top_k 0) \<and>
         (1 < m \<longrightarrow>
            (\<exists>r1. find_relevant lib store s question top_k 1 = (Inr r1, s) \<and>
                  find_relevant lib store s question top_k m =
                    (Inr (filter (\<lambda>r. m \<le> score r) r1), s)))"
proof -
  from index_documents_built [OF assms(1,4,5)] obtain v mx where b: "built lib s v mx"
    by blast
  let ?sims = "similarities lib v mx question"
  let ?top = "py_take top_k (ranking lib ?sims)"
  have fr: "find_relevant lib store s question top_k m' =
              (Inr (map (result_at s ?sims) (filter (\<lambda>i. ?sims ! i \<ge> m') ?top)), s)" for m'
    by (rule find_relevant_built [OF assms(2) b])
  have rng: "0 \<le> ?sims ! i" if "i \<in> set ?top" for i
  proof -
    from that set_py_take [of top_k "ranking lib ?sims"] set_ranking [OF assms(2), of ?sims]
    have "i < length mx" by (auto simp: similarities_def)
    then show ?thesis using assms(3) by (simp add: similarities_nth cosine_nonneg_def)
  qed
  have neg: "filter (\<lambda>i. ?sims ! i \<ge> m) ?top = filter (\<lambda>i. ?sims ! i \<ge> 0) ?top" if "m < 0"
    using that rng by (intro filter_cong) force+
  have big: "map (result_at s ?sims) (filter (\<lambda>i. ?sims ! i \<ge> m) ?top) =
             filter (\<lambda>r. m \<le> score r)
               (map (result_at s ?sims) (filter (\<lambda>i. ?sims ! i \<ge> 1) ?top))" if "1 < m"
  proof -
    have "filter (\<lambda>i. ?sims ! i \<ge> m) ?top =
          filter (\<lambda>i. ?sims ! i \<ge> m) (filter (\<lambda>i. ?sims ! i \<ge> 1) ?top)"
      using that by (auto intro: filter_cong)
    then show ?thesis by (simp add: filter_map o_def score_result_at)
  qed
  show ?thesis using fr [of m] fr [of 0] fr [of 1] neg big by simp
qed

theorem min_score_out_of_range_witness:
  "fit_rows_ok word_lib \<and> argsort_ok word_lib \<and> cosine_nonneg word_lib \<and>
   [doc_learning, doc_cloud] \<noteq> [] \<and>
   index_documents word_lib [doc_learning, doc_cloud] init_retriever = (Inr 2, index_two) \<and>
   find_relevant word_lib [] index_two ''learning'' 3 (- 1) =
     find_relevant word_lib [] index_two ''learning'' 3 0 \<and>
   (\<exists>r1. find_relevant word_lib [] index_two ''learning'' 3 1 = (Inr r1, index_two) \<and>
         find_relevant word_lib [] index_two ''learning'' 3 2 =
           (Inr (filter (\<lambda>r. 2 \<le> score r) r1), index_two))"
proof -
  have h: "[doc_learning, doc_cloud] \<noteq> []" by simp
  from min_score_out_of_range [OF word_lib_fit_rows word_lib_argsort word_lib_cosine h
      build_index_two, of "[]" "''learning''" 3 "- 1"]
    min_score_out_of_range [OF word_lib_fit_rows word_lib_argsort word_lib_cosine h
      build_index_two, of "[]" "''learning''" 3 2]
    word_lib_fit_rows word_lib_argsort word_lib_cosine build_index_two h
  show ?thesis by simp
qed

section \<open>Resolving results to documents\<close>

text \<open>
  C8. Whatever results the ranking gives, \<open>find_relevant_documents\<close> returns and does not
  raise: it pairs each result whose id the store still holds with its score, in rank
  order, every document returned being a row of the store, and omits the ids the store no
  longer has.
\<close>

theorem resolution_safety:
  assumes "find_relevant lib documents s question top_k min_score = (Inr results, s1)"
  shows "\<exists>out. find_relevant_documents lib documents s question top_k min_score = (Inr out, s1) \<and>
           map (\<lambda>(d, sc). (doc_id d, sc)) out =
             map (\<lambda>r. (document_id r, score r))
               (filter (\<lambda>r. document_id r \<in> doc_id ` set documents) results) \<and>
           fst ` set out \<subseteq> set documents"
proof (cases "results = []")
  case True
  with assms show ?thesis by (simp add: find_relevant_documents_def)
next
  case False
  let ?m = "doc_map documents (map document_id results)"
  let ?out = "resolve ?m results"
  from assms False
  have fr: "find_relevant_documents lib documents s question top_k min_score = (Inr ?out, s1)"
    by (simp add: find_relevant_documents_def)
  have "map (\<lambda>(d, sc). (doc_id d, sc)) ?out =
          map (\<lambda>r. (document_id r, score r)) (filter (\<lambda>r. ?m (document_id r) \<noteq> None) results)"
    by (rule resolve_spec) (simp add: doc_map_Some)
  also have "filter (\<lambda>r. ?m (document_id r) \<noteq> None) results =
             filter (\<lambda>r. document_id r \<in> doc_id ` set documents) results"
    by (rule filter_cong) (auto simp: doc_map_None)
  finally have eq: "map (\<lambda>(d, sc). (doc_id d, sc)) ?out =
          map (\<lambda>r. (document_id r, score r))
            (filter (\<lambda>r. document_id r \<in> doc_id ` set documents) results)" .
  have "fst ` set ?out \<subseteq> set documents"
    by (rule resolve_range) (simp add: doc_map_Some)
  with fr eq show ?thesis by blast
qed

theorem resolution_safety_witness:
  "find_relevant word_lib [doc_cloud] index_two ''learning'' 3 0 =
     (Inr [\<lparr>document_id = 1, title = ''Machine Learning Basics'', score = 1,
            content_preview = ''learning''\<rparr>,
           \<lparr>document_id = 2, title = ''Cloud Computing Guide'', score = 0,
            content_preview = ''cloud''\<rparr>], index_two) \<and>
   (\<exists>out. find_relevant_documents word_lib [doc_cloud] index_two ''learning'' 3 0 =
            (Inr out, index_two) \<and>
          map (\<lambda>(d, sc). (doc_id d, sc)) out = [(2, 0)] \<and> fst ` set out \<subseteq> {doc_cloud})"
  using resolution_safety [OF stale_query] stale_query
  by (simp add: doc_cloud_def)

section \<open>A failing language model\<close>

text \<open>
  C4, as stated, fails: when \<open>invoke\<close> raises, \<open>generate_answer\<close> returns the string
  "Error generating answer: boom" as its answer, and the view replies 201, not 500.
\<close>

theorem llm_failure_counterexample:
  "fst (generate_answer failing_env init_service ''learning'' [(doc_learning, 1)]) =
     Inr ''Error generating answer: boom'' \<and>
   ask_question_view_status failing_env word_lib [doc_learning] 0 init_service init_retriever
     ''learning'' = 201"
  by (simp add: generate_answer_def initialize_def init_service_def failing_env_def
        failing_llm_def ask_question_view_status_def answer_question_def
        retrieve_for_question_def find_relevant_documents_def doc_map_def word_eval)

text \<open>
  C4, amended. When the invocation of the language model raises, \<open>generate_answer\<close>
  catches the exception and returns the ordinary string "Error generating answer: "
  followed by the exception's message; \<open>answer_question\<close> returns that string, stores it
  on the question as its answer, with the time and the documents found, and the view
  replies 201; the retriever is left in the state the retrieval step produced, unchanged
  by the failure.
\<close>

theorem llm_failure_masked:
  assumes "retrieve_for_question lib documents rs (text_field q) = (Inr found, rs1)"
    and "found \<noteq> []"
    and "initialize env svc = Inr svc1"
    and "llm_field svc1 = Some f"
    and "f (build_prompt (text_field q) (build_context found)) = Inl e"
  shows "generate_answer env svc (text_field q) found =
           (Inr (''Error generating answer: '' @ str_exn e), svc1,
            [build_prompt (text_field q) (build_context found)]) \<and>
         answer_question env lib documents now svc rs q =
           (Inr (''Error generating answer: '' @ str_exn e), svc1, rs1,
            q\<lparr>answer := Some (''Error generating answer: '' @ str_exn e),
              answered_at := Some now,
              related_documents := set (map (\<lambda>(doc, score). doc_id doc) found)\<rparr>) \<and>
         ask_question_view_status env lib documents now svc rs (text_field q) = 201"
  using assms
  by (simp add: generate_answer_def answer_question_def ask_question_view_status_def Let_def)

theorem llm_failure_masked_witness:
  "retrieve_for_question word_lib [doc_learning] init_retriever ''learning'' =
     (Inr [(doc_learning, 1)], index_one) \<and>
   [(doc_learning, 1::real)] \<noteq> [] \<and>
   initialize failing_env init_service =
     Inr \<lparr>llm_field = Some failing_llm, initialized = True\<rparr> \<and>
   failing_llm (build_prompt ''learning'' (build_context [(doc_learning, 1)])) =
     Inl (Raised LLMError ''boom'') \<and>
   answer_question failing_env word_lib [doc_learning] 7 init_service init_retriever
       \<lparr>text_field = ''learning'', answer = None, answered_at = None,
        related_documents = {}\<rparr> =
     (Inr ''Error generating answer: boom'',
      \<lparr>llm_field = Some failing_llm, initialized = True\<rparr>, index_one,
      \<lparr>text_field = ''learning'', answer = Some ''Error generating answer: boom'',
       answered_at = Some 7, related_documents = {1}\<rparr>) \<and>
   ask_question_view_status failing_env word_lib [doc_learning] 7 init_service init_retriever
     ''learning'' = 201"
proof -
  let ?q = "\<lparr>text_field = ''learning'', answer = None, answered_at = None,
             related_documents = {}\<rparr>"
  let ?svc1 = "\<lparr>llm_field = Some failing_llm, initialized = True\<rparr>"
  have h1: "retrieve_for_question word_lib [doc_learning] init_retriever (text_field ?q) =
              (Inr [(doc_learning, 1)], index_one)"
    using retrieve_example by simp
  have h2: "[(doc_learning, 1::real)] \<noteq> []" by simp
  have h3: "initialize failing_env init_service = Inr ?svc1"
    by (simp add: initialize_def init_service_def failing_env_def)
  have h4: "llm_field ?svc1 = Some failing_llm" by simp
  have h5: "failing_llm (build_prompt (text_field ?q) (build_context [(doc_learning, 1)])) =
              Inl (Raised LLMError ''boom'')"
    by (simp add: failing_llm_def)
  from llm_failure_masked [OF h1 h2 h3 h4 h5, of 7] h1 h2 h3 h5 show ?thesis
    by (simp add: doc_learning_def)
qed

section \<open>The invariant under a failed fit\<close>

text \<open>
  C3 does not hold of the code. \<open>index_documents\<close> overwrites the three arrays and the
  vectorizer before fitting, and sets the matrix and the flag after it. Rebuilding the
  index of "learning" and "cloud" when the store holds only the stop word "the" raises
  \<open>ValueError\<close> and leaves \<open>is_indexed\<close> true with an unfitted vectorizer, the old matrix
  of two rows and arrays of one entry; the next \<open>find_relevant\<close> raises.
\<close>

theorem failed_fit_leaves_torn_index:
  "index_documents word_lib [doc_learning, doc_cloud] init_retriever = (Inr 2, index_two) \<and>
   index_documents word_lib [doc_the] index_two =
     (Inl (Raised ValueError ''empty vocabulary; perhaps the documents only contain stop words''),
      torn_index) \<and>
   is_indexed torn_index \<and> \<not> fitted_present torn_index \<and>
   matrix_rows torn_index = Some 2 \<and> document_count torn_index = 1 \<and>
   \<not> invariant torn_index 1 \<and>
   fst (find_relevant word_lib [doc_the] torn_index ''learning'' 3 0) =
     Inl (Raised NotFittedError ''not fitted'')"
  by (simp add: word_eval index_two_def torn_index_def fitted_present_def matrix_rows_def
        document_count_def invariant_def arrays_consistent_def)

theorem failed_fit_leaves_torn_index_witness:
  "fst (index_documents word_lib [doc_the] index_two) =
     Inl (Raised ValueError ''empty vocabulary; perhaps the documents only contain stop words'') \<and>
   is_indexed (snd (index_documents word_lib [doc_the] index_two)) \<and>
   \<not> fitted_present (snd (index_documents word_lib [doc_the] index_two)) \<and>
   document_count (snd (index_documents word_lib [doc_the] index_two)) = 1"
  using failed_fit_leaves_torn_index by simp

end
